theory Spec2Isabelle
  imports Main "HOL-Library.Sublist"
begin

section \<open>Common vocabulary of install\_ffmpeg.js\<close>

text \<open>
  Errors that travel through promises and callbacks of the script. The only error object
  the script builds itself is \<^verbatim>\<open>{ name: 'RedirectError', message: res.headers.location }\<close>
  in \<^verbatim>\<open>get\<close>; its message is the Location header, which is \<^verbatim>\<open>undefined\<close>
  (\<open>None\<close>) when the header is absent. Every other error comes from Node: a network or
  file-system error, the error of a failed child process (which carries the captured
  \<^verbatim>\<open>stderr\<close>), or a TypeError raised by the script's own property accesses.
\<close>

datatype error =
    RedirectError "string option"
  | NodeError string
  | ExecError (stderr: string)
  | TypeError string

text \<open>
  Observable effects, in the order in which the script performs them.
\<close>

datatype effect =
    ConsoleLog string
  | ConsoleError string
  | ConsoleErrorObj error
  | Progress nat "nat option" string
  | Downloaded nat string
  | Mkdir string
  | Access string
  | CreateWriteStream string
  | HttpsGet string
  | HttpsGetDefault
  | Exec string
  | ExecFile string "string list"
  | UnzipFile string string
  | RenameSync string string
  | UncaughtException error

text \<open>
  How an async function of the script finishes: it returns a value, it throws (its promise
  rejects), the process ends while it runs (\<^verbatim>\<open>process.exit\<close>, or an uncaught exception,
  which ends the process with status 1), or its promise is never settled.
\<close>

datatype 'a outcome = Return 'a | Throw error | Exit nat | Pending

subsection \<open>String.prototype.indexOf\<close>

text \<open>
  \<^verbatim>\<open>s.indexOf(t)\<close>: the least position at which \<open>t\<close> occurs in \<open>s\<close>, or \<open>-1\<close>.
\<close>

fun indexOf_from :: "string \<Rightarrow> string \<Rightarrow> int \<Rightarrow> int" where
  "indexOf_from [] t i = (if t = [] then i else - 1)"
| "indexOf_from (c # cs) t i = (if prefix t (c # cs) then i else indexOf_from cs t (i + 1))"

definition indexOf :: "string \<Rightarrow> string \<Rightarrow> int" where
  "indexOf s t = indexOf_from s t 0"

section \<open>Library Verifier: linux()\<close>

text \<open>
  One of the eight checks of \<^verbatim>\<open>linux\<close>:
  \<^verbatim>\<open>if (stdout.indexOf(lib) < 0) { console.error(lib + ' is not installed.'); result = 1; }\<close>
  The state is the console output so far and the variable \<^verbatim>\<open>result\<close>.
\<close>

definition check_lib :: "string \<Rightarrow> string \<Rightarrow> effect list \<times> int \<Rightarrow> effect list \<times> int" where
  "check_lib stdout lib st =
     (if indexOf stdout lib < 0
      then (fst st @ [ConsoleError (lib @ '' is not installed.'')], 1)
      else st)"

definition remediation :: string where
  "remediation =
     ''Try running the following (Ubuntu/Debian):'' @ [CHR 0x0A] @
     ''sudo add-apt-repository ppa:jonathonf/ffmpeg-4'' @ [CHR 0x0A] @
     ''sudo apt-get install libavcodec-dev libavformat-dev libavdevice-dev libavfilter-dev libavutil-dev libpostproc-dev libswresample-dev libswscale-dev''"

text \<open>
  \<^verbatim>\<open>linux\<close>, given what \<^verbatim>\<open>execFile('ldconfig', ['-p'])\<close> produced. When the command
  fails, \<^verbatim>\<open>.catch(console.error)\<close> logs the error and yields \<^verbatim>\<open>undefined\<close>, and the
  destructuring \<^verbatim>\<open>const { stdout } = undefined\<close> throws a TypeError.
\<close>

definition linux :: "error + string \<Rightarrow> effect list \<times> int outcome" where
  "linux ldconfig =
     (let out0 = [ConsoleLog ''Checking FFmpeg dependencies for Beam Coder on Linux.'',
                  ExecFile ''ldconfig'' [''-p'']]
      in case ldconfig of
           Inl e \<Rightarrow> (out0 @ [ConsoleErrorObj e],
                     Throw (TypeError ''Cannot destructure property stdout of undefined''))
         | Inr stdout \<Rightarrow>
             (let st = (out0, 0);
                  st = check_lib stdout ''libavcodec.so.59'' st;
                  st = check_lib stdout ''libavformat.so.59'' st;
                  st = check_lib stdout ''libavdevice.so.59'' st;
                  st = check_lib stdout ''libavfilter.so.8'' st;
                  st = check_lib stdout ''libavutil.so.57'' st;
                  st = check_lib stdout ''libpostproc.so.56'' st;
                  st = check_lib stdout ''libswresample.so.4'' st;
                  st = check_lib stdout ''libswscale.so.6'' st
              in if snd st = 1
                 then (fst st @ [ConsoleLog remediation], Exit 1)
                 else (fst st, Return (snd st))))"

text \<open>
  The eight required libraries, in the order in which \<^verbatim>\<open>linux\<close> tests them, and the
  Debian package that the remediation text names for each.
\<close>

definition required_libs :: "string list" where
  "required_libs =
     [''libavcodec.so.59'', ''libavformat.so.59'', ''libavdevice.so.59'', ''libavfilter.so.8'',
      ''libavutil.so.57'', ''libpostproc.so.56'', ''libswresample.so.4'', ''libswscale.so.6'']"

definition package_of :: "string \<Rightarrow> string" where
  "package_of lib = takeWhile (\<lambda>c. c \<noteq> CHR ''.'') lib @ ''-dev''"

definition present :: "string \<Rightarrow> string \<Rightarrow> bool" where
  "present stdout lib = (\<not> indexOf stdout lib < 0)"

definition not_installed :: "string \<Rightarrow> effect" where
  "not_installed lib = ConsoleError (lib @ '' is not installed.'')"

definition missing :: "string \<Rightarrow> string list" where
  "missing stdout = filter (\<lambda>lib. \<not> present stdout lib) required_libs"

section \<open>Transfer Agent: get(ws, url, name)\<close>

text \<open>
  What the network answers to \<^verbatim>\<open>https.get(url, ...)\<close>: the request fails before any
  response (\<^verbatim>\<open>'error'\<close> on the request), or a response arrives. A response has its
  status code, the Location and Content-Length headers (the latter already as the number
  that unary \<^verbatim>\<open>+\<close> makes of it, \<open>None\<close> standing for NaN), the chunks that its
  \<^verbatim>\<open>'data'\<close> events deliver, and how the stream finishes: \<^verbatim>\<open>'end'\<close> (\<open>None\<close>) or
  \<^verbatim>\<open>'error'\<close>.
\<close>

record response =
  statusCode :: nat
  location :: "string option"
  content_length :: "nat option"
  chunks :: "string list"
  failure :: "error option"

datatype http_result = RequestError error | Response response

text \<open>
  The \<^verbatim>\<open>'data'\<close> events of a piped response: \<^verbatim>\<open>res.pipe(ws)\<close> registered its listener
  first, so each chunk is written to the sink, then \<^verbatim>\<open>received += x.length\<close> and the
  progress line is printed. The state is the sink's contents, the effects and
  \<^verbatim>\<open>received\<close>.
\<close>

fun on_data :: "nat option \<Rightarrow> string \<Rightarrow> string list \<Rightarrow> string \<times> effect list \<times> nat
                  \<Rightarrow> string \<times> effect list \<times> nat" where
  "on_data totalLength name [] st = st"
| "on_data totalLength name (x # xs) (ws, fx, received) =
     on_data totalLength name xs
       (ws @ x, fx @ [Progress (received + length x) totalLength name], received + length x)"

text \<open>
  \<^verbatim>\<open>get\<close>: the sink's contents afterwards, the effects, and how the promise settles.
\<close>

definition get :: "string \<Rightarrow> (string \<Rightarrow> http_result) \<Rightarrow> string \<Rightarrow> string
                     \<Rightarrow> string \<times> effect list \<times> unit outcome" where
  "get ws net url name =
     (case net url of
        RequestError e \<Rightarrow> (ws, [HttpsGet url], Throw e)
      | Response res \<Rightarrow>
          if statusCode res = 301 \<or> statusCode res = 302
          then (ws, [HttpsGet url], Throw (RedirectError (location res)))
          else
            (case on_data (content_length res) name (chunks res) (ws, [HttpsGet url], 0) of
               (ws', fx, received) \<Rightarrow>
                 (case failure res of
                    Some e \<Rightarrow> (ws', fx, Throw e)
                  | None \<Rightarrow> (ws', fx @ [Downloaded received name], Return ()))))"

section \<open>Archive Extractor: unzipFile(archiveName, destFolder)\<close>

text \<open>
  \<^verbatim>\<open>unzipFile\<close> is a set of callbacks around one counter. The model keeps the variables
  of the closure (\<^verbatim>\<open>handles\<close>, \<^verbatim>\<open>rootPath\<close>), the calls made to \<^verbatim>\<open>resolve\<close> and
  \<^verbatim>\<open>reject\<close>, and the pipes set up by \<^verbatim>\<open>readStream.pipe(writeFileStream)\<close>, each as the
  entry's \<^verbatim>\<open>fileName\<close> with the destination path of its write stream. The rest of the
  state belongs to the collaborators (yauzl and the file streams): the entries not yet
  emitted, whether \<^verbatim>\<open>yauzl.open\<close> has not called back yet, whether a \<^verbatim>\<open>readEntry()\<close> is
  unanswered, the entry whose \<^verbatim>\<open>openReadStream\<close> has not called back yet, whether a read
  stream is flowing, the write streams not yet closed (numbered by their position in
  \<open>piped\<close>), whether \<^verbatim>\<open>'end'\<close> was emitted, and whether the process died of an uncaught
  exception. Console output and the creation of directories (\<^verbatim>\<open>existsSync\<close>,
  \<^verbatim>\<open>mkdirSync\<close>) touch none of these and are left out.
\<close>

record zstate =
  handles :: int
  rootPath :: string
  resolved :: "string list"
  rejected :: "error list"
  piped :: "(string \<times> string) list"
  entries :: "string list"
  open_pending :: bool
  requested :: bool
  stream_pending :: "string option"
  reading :: bool
  writing :: "nat list"
  ended :: bool
  crashed :: bool

text \<open>
  The parameters of one call: the destination folder, \<^verbatim>\<open>path.join\<close>, and the names of
  the archive's entries in the order of its central directory, as yauzl decodes them
  (\<^verbatim>\<open>strictFileNames\<close> is off, so it has replaced every backslash by a slash).
\<close>

record zconfig =
  destFolder :: string
  path_join :: "string \<Rightarrow> string \<Rightarrow> string"
  archive :: "string list"

definition incHandles :: "zstate \<Rightarrow> zstate" where
  "incHandles s = s\<lparr>handles := handles s + 1\<rparr>"

definition decHandles :: "zstate \<Rightarrow> zstate" where
  "decHandles s =
     (let s' = s\<lparr>handles := handles s - 1\<rparr>
      in if handles s' = 0 then s'\<lparr>resolved := resolved s' @ [rootPath s']\<rparr> else s')"

text \<open>\<^verbatim>\<open>zipfile.readEntry()\<close>: asks yauzl for the next entry.\<close>

definition readEntry :: "zstate \<Rightarrow> zstate" where
  "readEntry s = s\<lparr>requested := True\<rparr>"

text \<open>\<^verbatim>\<open>/\/$/.test(fileName)\<close> and \<^verbatim>\<open>fileName.split('/')[0]\<close>.\<close>

definition is_directory :: "string \<Rightarrow> bool" where
  "is_directory fileName = (fileName \<noteq> [] \<and> last fileName = CHR ''/'')"

definition first_segment :: "string \<Rightarrow> string" where
  "first_segment fileName = takeWhile (\<lambda>c. c \<noteq> CHR ''/'') fileName"

text \<open>
  The state when the promise executor has run \<^verbatim>\<open>incHandles()\<close> and called
  \<^verbatim>\<open>yauzl.open\<close>.
\<close>

definition unzip_init :: "zconfig \<Rightarrow> zstate" where
  "unzip_init cfg =
     incHandles \<lparr>handles = 0, rootPath = [], resolved = [], rejected = [], piped = [],
                 entries = archive cfg, open_pending = True, requested = False,
                 stream_pending = None, reading = False, writing = [], ended = False,
                 crashed = False\<rparr>"

text \<open>The callback of \<^verbatim>\<open>yauzl.open\<close> without error: \<^verbatim>\<open>zipfile.readEntry()\<close>.\<close>

definition on_open :: "zstate \<Rightarrow> zstate" where
  "on_open s = readEntry s"

text \<open>
  The callbacks called with an error: \<^verbatim>\<open>if (err) reject(err)\<close>, after which the next
  statement dereferences \<^verbatim>\<open>undefined\<close> (\<^verbatim>\<open>zipfile.readEntry()\<close>, \<^verbatim>\<open>readStream.on\<close>) and
  the exception, thrown inside a callback, is uncaught.
\<close>

definition on_callback_error :: "error \<Rightarrow> zstate \<Rightarrow> zstate" where
  "on_callback_error e s = s\<lparr>rejected := rejected s @ [e], crashed := True\<rparr>"

text \<open>The \<^verbatim>\<open>'entry'\<close> listener.\<close>

definition on_entry :: "string \<Rightarrow> zstate \<Rightarrow> zstate" where
  "on_entry fileName s =
     (if is_directory fileName then readEntry s else s\<lparr>stream_pending := Some fileName\<rparr>)"

text \<open>
  The callback of \<^verbatim>\<open>openReadStream\<close> without error: the root name is recorded while
  \<^verbatim>\<open>rootPath\<close> is still empty, the counter is incremented, the write stream is created at
  \<^verbatim>\<open>path.join(destFolder, entry.fileName)\<close> and the read stream is piped into it.
\<close>

definition on_read_stream :: "zconfig \<Rightarrow> string \<Rightarrow> zstate \<Rightarrow> zstate" where
  "on_read_stream cfg fileName s =
     (let destPath = path_join cfg (destFolder cfg) fileName;
          s1 = (if rootPath s = [] then s\<lparr>rootPath := first_segment fileName\<rparr> else s);
          s2 = incHandles s1
      in s2\<lparr>piped := piped s2 @ [(fileName, destPath)],
             writing := writing s2 @ [length (piped s2)],
             reading := True\<rparr>)"

text \<open>The listeners of the read stream's \<^verbatim>\<open>'end'\<close>, the write stream's \<^verbatim>\<open>'close'\<close> and
  the zipfile's \<^verbatim>\<open>'end'\<close>.\<close>

definition on_read_end :: "zstate \<Rightarrow> zstate" where
  "on_read_end s = readEntry s"

definition on_close :: "zstate \<Rightarrow> zstate" where
  "on_close s = decHandles s"

definition on_end :: "zstate \<Rightarrow> zstate" where
  "on_end s = decHandles s"

text \<open>
  The events that the collaborators deliver, one callback at a time (Node runs callbacks
  to completion, one after the other). yauzl, opened with \<^verbatim>\<open>lazyEntries\<close>, emits one
  \<^verbatim>\<open>'entry'\<close> or the final \<^verbatim>\<open>'end'\<close> for each \<^verbatim>\<open>readEntry()\<close>; a write stream closes
  once, at any time after its creation; \<open>Fault\<close> is any unhandled \<^verbatim>\<open>'error'\<close> event,
  which ends the process.
\<close>

datatype event =
    Opened
  | OpenFailed error
  | Entry
  | StreamOpened
  | StreamFailed error
  | ReadEnd
  | WriteClose nat
  | ZipEnd
  | Fault

text \<open>One event: \<open>None\<close> when the collaborators cannot deliver it in this state.\<close>

definition step :: "zconfig \<Rightarrow> event \<Rightarrow> zstate \<Rightarrow> zstate option" where
  "step cfg ev s =
     (if crashed s then None
      else case ev of
        Opened \<Rightarrow>
          if open_pending s then Some (on_open (s\<lparr>open_pending := False\<rparr>)) else None
      | OpenFailed e \<Rightarrow>
          if open_pending s then Some (on_callback_error e (s\<lparr>open_pending := False\<rparr>))
          else None
      | Entry \<Rightarrow>
          (case entries s of
             [] \<Rightarrow> None
           | fileName # rest \<Rightarrow>
               if requested s
               then Some (on_entry fileName (s\<lparr>requested := False, entries := rest\<rparr>))
               else None)
      | StreamOpened \<Rightarrow>
          (case stream_pending s of
             None \<Rightarrow> None
           | Some fileName \<Rightarrow> Some (on_read_stream cfg fileName (s\<lparr>stream_pending := None\<rparr>)))
      | StreamFailed e \<Rightarrow>
          (case stream_pending s of
             None \<Rightarrow> None
           | Some fileName \<Rightarrow> Some (on_callback_error e (s\<lparr>stream_pending := None\<rparr>)))
      | ReadEnd \<Rightarrow>
          if reading s then Some (on_read_end (s\<lparr>reading := False\<rparr>)) else None
      | WriteClose i \<Rightarrow>
          if i \<in> set (writing s)
          then Some (on_close (s\<lparr>writing := remove1 i (writing s)\<rparr>))
          else None
      | ZipEnd \<Rightarrow>
          if requested s \<and> entries s = []
          then Some (on_end (s\<lparr>requested := False, ended := True\<rparr>))
          else None
      | Fault \<Rightarrow> Some (s\<lparr>crashed := True\<rparr>))"

fun run :: "zconfig \<Rightarrow> event list \<Rightarrow> zstate \<Rightarrow> zstate option" where
  "run cfg [] s = Some s"
| "run cfg (ev # evs) s = (case step cfg ev s of None \<Rightarrow> None | Some s' \<Rightarrow> run cfg evs s')"

subsection \<open>The events as yauzl and the file system deliver them\<close>










section \<open>Windows branch: win32()\<close>

text \<open>
  What a call of \<^verbatim>\<open>unzipFile\<close> comes to, seen from its caller. The promise is resolved
  with the root name. Or it is rejected while the process lives on: \<^verbatim>\<open>require('yauzl')\<close>
  or \<^verbatim>\<open>fs.mkdirSync(destFolder)\<close> threw before the promise was built. Or one of its
  callbacks throws and the process dies of the uncaught exception: after a failed
  \<^verbatim>\<open>yauzl.open\<close> or \<^verbatim>\<open>openReadStream\<close> the callback runs \<^verbatim>\<open>reject(err)\<close> and then
  dereferences \<^verbatim>\<open>undefined\<close>, and an \<^verbatim>\<open>'error'\<close> event of the zipfile or of a write
  stream has no listener. Or the events that would bring the counter back to zero never
  come, and the promise is never settled.
\<close>

datatype unzip_outcome = Resolves string | Rejects error | Dies error | Stalls

text \<open>
  What the host answers to the calls of \<^verbatim>\<open>win32\<close>: how \<^verbatim>\<open>mkdir('ffmpeg')\<close> and
  \<^verbatim>\<open>access\<close> settle (\<open>None\<close>: fulfilled), the network, what becomes of a request sent
  without a URL (\<open>Some e\<close>: it emits \<^verbatim>\<open>'error'\<close> with \<open>e\<close>; \<open>None\<close>: it does not), how
  \<^verbatim>\<open>exec('npm install yauzl --no-save')\<close> settles, what the call of \<^verbatim>\<open>unzipFile\<close> comes
  to, and whether \<^verbatim>\<open>fs.renameSync\<close> throws.
\<close>

record win_env =
  mkdir_error :: "error option"
  access_error :: "error option"
  net :: "string \<Rightarrow> http_result"
  default_request :: "error option"
  npm_error :: "error option"
  unzip_result :: unzip_outcome
  rename_error :: "error option"

definition ffmpegFilename :: string where
  "ffmpegFilename = ''ffmpeg-5.x-win64-shared''"

definition url :: string where
  "url = ''https://github.com/GyanD/codexffmpeg/releases/download/5.1.2/ffmpeg-5.1.2-full_build-shared.zip''"

text \<open>\<^verbatim>\<open>e.code\<close>: only the errors of Node's own layers carry one.\<close>

definition code :: "error \<Rightarrow> string option" where
  "code e = (case e of NodeError c \<Rightarrow> Some c | _ \<Rightarrow> None)"

text \<open>
  \<^verbatim>\<open>get(ws, undefined, name)\<close>, which \<^verbatim>\<open>win32\<close> calls when a RedirectError carries no
  location. \<^verbatim>\<open>https.get(undefined, cb)\<close> does not throw: it sends a request built from the
  default options, and the callback is dropped on the way, so a response is never
  handled. The promise is rejected when the request emits \<^verbatim>\<open>'error'\<close>, and is never
  settled otherwise. Nothing is written to the sink.
\<close>

definition get_undefined :: "string \<Rightarrow> error option \<Rightarrow> string \<times> effect list \<times> unit outcome" where
  "get_undefined ws request_error =
     (case request_error of
        Some e \<Rightarrow> (ws, [HttpsGetDefault], Throw e)
      | None \<Rightarrow> (ws, [HttpsGetDefault], Pending))"

text \<open>
  The statement \<^verbatim>\<open>await get(ws_shared, url, ...).catch(async (err) => { ... })\<close>: a
  RedirectError is answered by one more \<^verbatim>\<open>get\<close> at \<^verbatim>\<open>err.message\<close>, whose own failure
  is not caught; any other error is printed with \<^verbatim>\<open>console.error\<close> and the handler
  returns, so the awaited promise is fulfilled. With no Location header
  \<^verbatim>\<open>err.message\<close> is \<^verbatim>\<open>undefined\<close>.
\<close>

definition download :: "win_env \<Rightarrow> string \<times> effect list \<times> unit outcome" where
  "download env =
     (case get [] (net env) url (ffmpegFilename @ ''.zip'') of
        (ws, fx, r) \<Rightarrow>
          (case r of
             Throw err \<Rightarrow>
               (case err of
                  RedirectError message \<Rightarrow>
                    (case message of
                       None \<Rightarrow>
                         (case get_undefined ws (default_request env) of
                            (ws', fx', r') \<Rightarrow> (ws', fx @ fx', r'))
                     | Some redirectURL \<Rightarrow>
                         (case get ws (net env) redirectURL (ffmpegFilename @ ''.zip'') of
                            (ws', fx', r') \<Rightarrow> (ws', fx @ fx', r')))
                | _ \<Rightarrow> (ws, fx @ [ConsoleErrorObj err], Return ()))
           | _ \<Rightarrow> (ws, fx, r)))"

text \<open>
  The statements after the download in the handler of the failed \<^verbatim>\<open>access\<close>: install
  yauzl, unzip, rename. Each \<^verbatim>\<open>await\<close> passes a rejection on. When a callback of
  \<^verbatim>\<open>unzipFile\<close> throws, the process ends there with status 1; when its promise is never
  settled, the \<^verbatim>\<open>await\<close> never returns.
\<close>

definition extract_and_rename :: "win_env \<Rightarrow> effect list \<times> unit outcome" where
  "extract_and_rename env =
     (let fx0 = [Exec ''npm install yauzl --no-save'']
      in case npm_error env of
        Some e \<Rightarrow> (fx0, Throw e)
      | None \<Rightarrow>
          (let fx1 = fx0 @ [UnzipFile (''ffmpeg/'' @ ffmpegFilename @ ''.zip'') ''ffmpeg'']
           in case unzip_result env of
             Rejects e \<Rightarrow> (fx1, Throw e)
           | Dies e \<Rightarrow> (fx1 @ [UncaughtException e], Exit 1)
           | Stalls \<Rightarrow> (fx1, Pending)
           | Resolves root \<Rightarrow>
               (let fx2 = fx1 @ [RenameSync (''ffmpeg/'' @ root) (''ffmpeg/'' @ ffmpegFilename)]
                in case rename_error env of
                  Some e \<Rightarrow> (fx2, Throw e)
                | None \<Rightarrow> (fx2, Return ()))))"

text \<open>The handler of the failed \<^verbatim>\<open>access\<close>: open the sink, download, then the rest.\<close>

definition win32_install :: "win_env \<Rightarrow> effect list \<times> unit outcome" where
  "win32_install env =
     (let fx0 = [CreateWriteStream (''ffmpeg/'' @ ffmpegFilename @ ''.zip'')]
      in case download env of
        (ws, fx1, r) \<Rightarrow>
          (case r of
             Throw e \<Rightarrow> (fx0 @ fx1, Throw e)
           | Exit n \<Rightarrow> (fx0 @ fx1, Exit n)
           | Pending \<Rightarrow> (fx0 @ fx1, Pending)
           | Return _ \<Rightarrow>
               (case extract_and_rename env of (fx2, r2) \<Rightarrow> (fx0 @ fx1 @ fx2, r2))))"

definition win32 :: "win_env \<Rightarrow> effect list \<times> unit outcome" where
  "win32 env =
     (let fx0 = [ConsoleLog ''Checking/Installing FFmpeg dependencies for Beam Coder on Windows.'',
                 Mkdir ''ffmpeg''];
          thrown = (case mkdir_error env of
                      None \<Rightarrow> None
                    | Some e \<Rightarrow> if code e = Some ''EEXIST'' then None else Some e)
      in case thrown of
        Some e \<Rightarrow> (fx0, Throw e)
      | None \<Rightarrow>
          (let fx1 = fx0 @ [Access (''ffmpeg/'' @ ffmpegFilename)]
           in case access_error env of
             None \<Rightarrow> (fx1, Return ())
           | Some _ \<Rightarrow> (case win32_install env of (fx, r) \<Rightarrow> (fx1 @ fx, r))))"

section \<open>macOS branch: darwin()\<close>

text \<open>
  \<^verbatim>\<open>darwin\<close>, given how \<^verbatim>\<open>exec('brew list ffmpeg@5')\<close> and
  \<^verbatim>\<open>exec('brew install nasm pkg-config texi2html ffmpeg@5')\<close> settle: \<open>Inr\<close> the
  \<^verbatim>\<open>stdout\<close> of the command, \<open>Inl\<close> the \<^verbatim>\<open>stderr\<close> that the error of a failed command
  carries.
\<close>

definition darwin :: "string + string \<Rightarrow> string + string \<Rightarrow> effect list \<times> int outcome" where
  "darwin brew_list brew_install =
     (let fx0 = [ConsoleLog ''Checking for FFmpeg dependencies via HomeBrew.'',
                 Exec ''brew list ffmpeg@5'']
      in case brew_list of
        Inr stdout \<Rightarrow>
          (fx0 @ [ConsoleLog stdout, ConsoleLog ''FFmpeg already present via Homebrew.''],
           Return 0)
      | Inl err_stderr \<Rightarrow>
          if indexOf err_stderr ''Error: No such keg'' = - 1 \<and>
             indexOf err_stderr ''ffmpeg@5'' = - 1
          then (fx0 @ [ConsoleErrorObj (ExecError err_stderr),
                       ConsoleLog (''Either Homebrew is not installed or something else is wrong.''
                                   @ [CHR 0x0A] @ ''Exiting'')],
                Exit 1)
          else
            (let fx1 = fx0 @ [ConsoleLog ''FFmpeg not installed. Attempting to install via Homebrew.'',
                              Exec ''brew install nasm pkg-config texi2html ffmpeg@5'']
             in case brew_install of
               Inr stdout \<Rightarrow>
                 (fx1 @ [ConsoleLog stdout, ConsoleLog ''FFmpeg installed via Homebrew.''],
                  Return 0)
             | Inl err_stderr' \<Rightarrow>
                 (fx1 @ [ConsoleLog (''Failed to install ffmpeg:'' @ [CHR 0x0A]),
                         ConsoleErrorObj (ExecError err_stderr')],
                  Exit 1)))"

section \<open>Platform Dispatcher: the switch on os.platform()\<close>

text \<open>
  The host: \<^verbatim>\<open>os.platform()\<close>, \<^verbatim>\<open>os.arch()\<close>, and what the external commands and the
  Windows collaborators answer.
\<close>

record host =
  platform :: string
  arch :: string
  ldconfig :: "error + string"
  brew_list :: "string + string"
  brew_install :: "string + string"
  windows :: win_env

text \<open>The value of a call whose result the script does not use.\<close>

definition discard :: "'a outcome \<Rightarrow> unit outcome" where
  "discard r =
     (case r of Return _ \<Rightarrow> Return () | Throw e \<Rightarrow> Throw e | Exit n \<Rightarrow> Exit n
      | Pending \<Rightarrow> Pending)"

text \<open>
  The script's top level. \<^verbatim>\<open>win32().catch(console.error)\<close> prints a rejection and is
  fulfilled; \<^verbatim>\<open>linux()\<close> and \<^verbatim>\<open>darwin()\<close> are called bare. The \<^verbatim>\<open>default\<close> case prints
  its message and breaks.
\<close>

definition main :: "host \<Rightarrow> effect list \<times> unit outcome" where
  "main h =
     (if platform h = ''win32'' then
        (if arch h \<noteq> ''x64''
         then ([ConsoleError ''Only 64-bit platforms are supported.''], Exit 1)
         else (case win32 (windows h) of
                 (fx, r) \<Rightarrow>
                   (case r of
                      Throw e \<Rightarrow> (fx @ [ConsoleErrorObj e], Return ())
                    | _ \<Rightarrow> (fx, r))))
      else if platform h = ''linux'' then
        (if arch h \<noteq> ''x64'' \<and> arch h \<noteq> ''arm64''
         then ([ConsoleError ''Only 64-bit platforms are supported.''], Exit 1)
         else (case linux (ldconfig h) of (fx, r) \<Rightarrow> (fx, discard r)))
      else if platform h = ''darwin'' then
        (if arch h \<noteq> ''x64'' \<and> arch h \<noteq> ''arm64''
         then ([ConsoleError ''Only 64-bit platforms are supported.''], Exit 1)
         else (case darwin (brew_list h) (brew_install h) of (fx, r) \<Rightarrow> (fx, discard r)))
      else ([ConsoleError (''Platfrom '' @ platform h @ '' is not supported.'')], Return ()))"

text \<open>
  The exit status of the process: the status with which it was ended, or 0 when the
  script ran to its end with nothing pending. What Node does with an unhandled rejection
  depends on its version, and a promise that is never settled may leave the process
  waiting, so no status is given for these.
\<close>

definition exit_status :: "unit outcome \<Rightarrow> nat option" where
  "exit_status r =
     (case r of Return _ \<Rightarrow> Some 0 | Exit n \<Rightarrow> Some n | Throw _ \<Rightarrow> None | Pending \<Rightarrow> None)"

text \<open>The effects that reach outside the process: network, file system, child processes.\<close>

definition side_effect :: "effect \<Rightarrow> bool" where
  "side_effect x =
     (case x of
        ConsoleLog _ \<Rightarrow> False
      | ConsoleError _ \<Rightarrow> False
      | ConsoleErrorObj _ \<Rightarrow> False
      | Progress _ _ _ \<Rightarrow> False
      | Downloaded _ _ \<Rightarrow> False
      | UncaughtException _ \<Rightarrow> False
      | _ \<Rightarrow> True)"

text \<open>The (OS, architecture) pairs for which the switch calls a branch.\<close>

definition supported :: "string \<Rightarrow> string \<Rightarrow> bool" where
  "supported os cpu =
     ((os = ''win32'' \<and> cpu = ''x64'') \<or>
      (os = ''linux'' \<and> (cpu = ''x64'' \<or> cpu = ''arm64'')) \<or>
      (os = ''darwin'' \<and> (cpu = ''x64'' \<or> cpu = ''arm64'')))"

section \<open>Vocabulary of the statements\<close>

text \<open>What \<^verbatim>\<open>linux\<close> does before it looks at the listing.\<close>

definition linux_start :: "effect list" where
  "linux_start = [ConsoleLog ''Checking FFmpeg dependencies for Beam Coder on Linux.'',
                  ExecFile ''ldconfig'' [''-p'']]"

text \<open>The lines that the console shows: every printed text, cut at its newlines.\<close>

fun split_lines :: "string \<Rightarrow> string list" where
  "split_lines [] = [[]]"
| "split_lines (c # cs) =
     (if c = CHR 0x0A then [] # split_lines cs
      else (case split_lines cs of l # ls \<Rightarrow> (c # l) # ls | [] \<Rightarrow> [[c]]))"

definition console_lines :: "effect list \<Rightarrow> string list" where
  "console_lines fx =
     concat (map (\<lambda>x. case x of ConsoleLog t \<Rightarrow> split_lines t
                               | ConsoleError t \<Rightarrow> split_lines t
                               | _ \<Rightarrow> []) fx)"

text \<open>What \<^verbatim>\<open>win32\<close> does up to the test of the target directory.\<close>

definition win32_start :: "effect list" where
  "win32_start = [ConsoleLog ''Checking/Installing FFmpeg dependencies for Beam Coder on Windows.'',
                  Mkdir ''ffmpeg'', Access (''ffmpeg/'' @ ffmpegFilename)]"

text \<open>The effects that belong to the Archive Extractor and the final rename.\<close>

definition extraction :: "effect \<Rightarrow> bool" where
  "extraction x = (case x of UnzipFile _ _ \<Rightarrow> True | RenameSync _ _ \<Rightarrow> True | _ \<Rightarrow> False)"

text \<open>The not-found signal that \<^verbatim>\<open>darwin\<close> recognises in the error output of the query.\<close>

definition not_found_signal :: "string \<Rightarrow> bool" where
  "not_found_signal err_stderr =
     (sublist ''Error: No such keg'' err_stderr \<or> sublist ''ffmpeg@5'' err_stderr)"

definition brew_install_cmd :: effect where
  "brew_install_cmd = Exec ''brew install nasm pkg-config texi2html ffmpeg@5''"

subsection \<open>Invariants of the Archive Extractor\<close>

text \<open>At most one of the listed conditions holds.\<close>

definition exclusive :: "bool list \<Rightarrow> bool" where
  "exclusive bs = (length (filter id bs) \<le> 1)"

text \<open>
  What the enumeration is doing: waiting for \<^verbatim>\<open>yauzl.open\<close>, waiting for the answer to a
  \<^verbatim>\<open>readEntry()\<close>, waiting for \<^verbatim>\<open>openReadStream\<close>, reading an entry, or ended.
\<close>

definition activities :: "zstate \<Rightarrow> bool list" where
  "activities s = [open_pending s, requested s, stream_pending s \<noteq> None, reading s, ended s]"

text \<open>
  The ledger: the counter is the number of open write streams, plus one while the
  enumeration has not ended; the enumeration is in at most one of its activities and has
  no entry left once it has ended; \<^verbatim>\<open>resolve\<close> has been called at most once, and if it
  has, the enumeration has ended and no write stream is open.
\<close>

definition ledger :: "zstate \<Rightarrow> bool" where
  "ledger s =
     (handles s = (if ended s then 0 else 1) + int (length (writing s)) \<and>
      exclusive (activities s) \<and>
      (ended s \<longrightarrow> entries s = []) \<and>
      (resolved s = [] \<or> (length (resolved s) = 1 \<and> ended s \<and> writing s = [])))"






subsection \<open>Concrete hosts and responses\<close>

text \<open>A network that gives the same answer to every request.\<close>

definition always :: "http_result \<Rightarrow> string \<Rightarrow> http_result" where
  "always r u = r"

text \<open>A network that answers the pinned URL with one response and every other URL with
  another.\<close>

definition redirecting :: "http_result \<Rightarrow> http_result \<Rightarrow> string \<Rightarrow> http_result" where
  "redirecting first other u = (if u = url then first else other)"

definition found_302 :: response where
  "found_302 = \<lparr>statusCode = 302, location = Some ''https://objects.example/ffmpeg.zip'',
                 content_length = None, chunks = [], failure = None\<rparr>"

definition temporary_307 :: response where
  "temporary_307 = \<lparr>statusCode = 307, location = Some ''https://objects.example/ffmpeg.zip'',
                     content_length = Some 3, chunks = [''abc''], failure = None\<rparr>"

definition ok_200_reset :: response where
  "ok_200_reset = \<lparr>statusCode = 200, location = None, content_length = Some 4,
                    chunks = [''PK'', ''zz''], failure = Some (NodeError ''ECONNRESET'')\<rparr>"

definition moved_301_bare :: response where
  "moved_301_bare = \<lparr>statusCode = 301, location = None, content_length = None,
                      chunks = [], failure = None\<rparr>"

text \<open>
  Hosts on which the target directory is absent. On the first, every connection of the
  script is reset, nothing is downloaded, and yauzl cannot open the empty archive: the
  callback of \<^verbatim>\<open>yauzl.open\<close> throws. On the second, the pinned URL redirects and the
  second connection is reset. On the third, the connection is reset after the whole
  archive has arrived. On the fourth, the pinned URL redirects without a Location header
  and the request without a URL is refused.
\<close>

definition reset_env :: win_env where
  "reset_env = \<lparr>mkdir_error = Some (NodeError ''EEXIST''),
                 access_error = Some (NodeError ''ENOENT''),
                 net = always (RequestError (NodeError ''ECONNRESET'')),
                 default_request = Some (NodeError ''ECONNREFUSED''),
                 npm_error = None,
                 unzip_result = Dies (TypeError ''Cannot read properties of undefined (reading readEntry)''),
                 rename_error = None\<rparr>"

definition redirect_then_reset_env :: win_env where
  "redirect_then_reset_env =
     reset_env\<lparr>net := redirecting (Response found_302) (RequestError (NodeError ''ECONNRESET''))\<rparr>"

definition late_reset_env :: win_env where
  "late_reset_env =
     reset_env\<lparr>net := always (Response ok_200_reset),
                unzip_result := Resolves ''ffmpeg-5.1.2-full_build-shared''\<rparr>"

definition bare_redirect_env :: win_env where
  "bare_redirect_env =
     reset_env\<lparr>net := redirecting (Response moved_301_bare) (RequestError (NodeError ''ECONNRESET''))\<rparr>"

definition some_host :: "string \<Rightarrow> string \<Rightarrow> host" where
  "some_host os cpu = \<lparr>platform = os, arch = cpu, ldconfig = Inr [],
                        brew_list = Inl [], brew_install = Inl [], windows = reset_env\<rparr>"

definition full_listing :: string where
  "full_listing =
     ''libavcodec.so.59 libavformat.so.59 libavdevice.so.59 libavfilter.so.8 '' @
     ''libavutil.so.57 libpostproc.so.56 libswresample.so.4 libswscale.so.6''"

definition listing_without_postproc :: string where
  "listing_without_postproc =
     ''libavcodec.so.59 libavformat.so.59 libavdevice.so.59 libavfilter.so.8 '' @
     ''libavutil.so.57 libswresample.so.4 libswscale.so.6''"

text \<open>An archive, and a schedule in which both of its write streams close after the
  enumeration has ended, the second before the first.\<close>

definition join_slash :: "string \<Rightarrow> string \<Rightarrow> string" where
  "join_slash dir name = dir @ ''/'' @ name"

definition example_cfg :: zconfig where
  "example_cfg = \<lparr>destFolder = ''ffmpeg'', path_join = join_slash,
                   archive = [''root/a.txt'', ''root/sub/'', ''root/sub/b.txt'']\<rparr>"

definition interleaved :: "event list" where
  "interleaved = [Opened, Entry, StreamOpened, ReadEnd, Entry, Entry, StreamOpened, ReadEnd,
                  ZipEnd, WriteClose 1, WriteClose 0]"

section \<open>Facts about indexOf\<close>

lemma indexOf_from_nonneg_iff:
  "0 \<le> i \<Longrightarrow> (indexOf_from s t i < 0) = (\<not> sublist t s)"
proof (induction s arbitrary: i)
  case Nil
  then show ?case by simp
next
  case (Cons c cs)
  from Cons.prems have "0 \<le> i + 1" by simp
  from Cons.IH [OF this] Cons.prems show ?case
    by (simp add: sublist_Cons_right)
qed

lemma indexOf_neg_iff: "(indexOf s t < 0) = (\<not> sublist t s)"
  by (simp add: indexOf_def indexOf_from_nonneg_iff)

lemma indexOf_from_range: "indexOf_from s t i = - 1 \<or> i \<le> indexOf_from s t i"
proof (induction s arbitrary: i)
  case Nil
  show ?case by simp
next
  case (Cons c cs)
  from Cons.IH [of "i + 1"] show ?case by auto
qed

lemma indexOf_minus_one_iff: "(indexOf s t = - 1) = (\<not> sublist t s)"
proof -
  have "indexOf s t = - 1 \<or> 0 \<le> indexOf s t"
    unfolding indexOf_def by (rule indexOf_from_range)
  then have "(indexOf s t = - 1) = (indexOf s t < 0)" by auto
  then show ?thesis by (simp add: indexOf_neg_iff)
qed

section \<open>The Transfer Agent\<close>

lemma on_data_sink: "fst (on_data t n xs (ws, fx, r)) = ws @ concat xs"
  by (induction xs arbitrary: ws fx r) simp_all

lemma on_data_effects:
  "\<forall>x \<in> set fx. \<not> extraction x \<Longrightarrow>
   \<forall>x \<in> set (fst (snd (on_data t n xs (ws, fx, r)))). \<not> extraction x"
proof (induction xs arbitrary: ws fx r)
  case Nil
  then show ?case by simp
next
  case (Cons a xs)
  from Cons.prems have "\<forall>x \<in> set (fx @ [Progress (r + length a) t n]). \<not> extraction x"
    by (simp add: extraction_def)
  from Cons.IH [OF this] show ?case by simp
qed

lemma get_effects: "\<forall>x \<in> set (fst (snd (get ws network u n))). \<not> extraction x"
proof (cases "network u")
  case (RequestError e)
  then show ?thesis by (simp add: get_def extraction_def)
next
  case (Response res)
  have "\<forall>x \<in> set (fst (snd (on_data (content_length res) n (chunks res) (ws, [HttpsGet u], 0)))).
          \<not> extraction x"
    by (rule on_data_effects) (simp add: extraction_def)
  with Response show ?thesis
    by (auto simp: get_def extraction_def split: prod.splits option.splits)
qed

text \<open>
  Claim C1, as amended. The code recognises a redirect by the status codes 301 and 302
  only. For a response with one of these two codes, \<^verbatim>\<open>get\<close> fails with a RedirectError
  whose message is the value of the Location header, makes no other effect than the
  request and leaves the sink as it was. A response with any other status code, the other
  3xx codes included, is piped: the sink receives all of its chunks.
\<close>

theorem get_redirect_only_301_302:
  assumes "network u = Response res"
  shows "(statusCode res = 301 \<or> statusCode res = 302 \<longrightarrow>
            get ws network u name = (ws, [HttpsGet u], Throw (RedirectError (location res)))) \<and>
         (statusCode res \<noteq> 301 \<and> statusCode res \<noteq> 302 \<longrightarrow>
            fst (get ws network u name) = ws @ concat (chunks res))"
proof -
  have a: "get ws network u name = (ws, [HttpsGet u], Throw (RedirectError (location res)))"
    if "statusCode res = 301 \<or> statusCode res = 302"
    using that assms by (auto simp: get_def)
  have b: "fst (get ws network u name) = ws @ concat (chunks res)"
    if "statusCode res \<noteq> 301 \<and> statusCode res \<noteq> 302"
  proof -
    obtain ws' fx r
      where od: "on_data (content_length res) name (chunks res) (ws, [HttpsGet u], 0) = (ws', fx, r)"
      by (cases "on_data (content_length res) name (chunks res) (ws, [HttpsGet u], 0)") auto
    have "ws' = ws @ concat (chunks res)"
      using on_data_sink [of "content_length res" name "chunks res" ws "[HttpsGet u]" 0] od
      by simp
    then show ?thesis using that assms od
      by (auto simp: get_def split: option.splits)
  qed
  from a b show ?thesis by blast
qed

theorem get_redirect_only_301_302_witness:
  "always (Response found_302) url = Response found_302 \<and>
   get [] (always (Response found_302)) url ''ffmpeg.zip'' =
     ([], [HttpsGet url], Throw (RedirectError (Some ''https://objects.example/ffmpeg.zip'')))"
  using get_redirect_only_301_302 [of "always (Response found_302)" url found_302 "[]" "''ffmpeg.zip''"]
  by (simp add: always_def found_302_def)

text \<open>
  Claim C1 as stated fails: a 307 response with a Location header is a 3xx redirect, yet
  \<^verbatim>\<open>get\<close> pipes its body into the sink and completes without error.
\<close>

theorem get_307_not_redirect:
  "300 \<le> statusCode temporary_307 \<and> statusCode temporary_307 < 400 \<and>
   location temporary_307 = Some ''https://objects.example/ffmpeg.zip'' \<and>
   get [] (always (Response temporary_307)) url ''ffmpeg.zip'' =
     (''abc'', [HttpsGet url, Progress 3 (Some 3) ''ffmpeg.zip'', Downloaded 3 ''ffmpeg.zip''],
      Return ())"
  by (simp add: get_def always_def temporary_307_def)

section \<open>The Platform Dispatcher\<close>

lemma main_unsupported_arch:
  assumes "os = ''win32'' \<or> os = ''linux'' \<or> os = ''darwin''" and "\<not> supported os cpu"
    and "platform h = os" and "arch h = cpu"
  shows "main h = ([ConsoleError ''Only 64-bit platforms are supported.''], Exit 1) \<and>
         filter side_effect (fst (main h)) = []"
  using assms by (auto simp: main_def supported_def side_effect_def)

lemma main_supported:
  assumes "supported (platform h) (arch h)"
  shows "main h =
     (if platform h = ''win32''
      then (case win32 (windows h) of
              (fx, r) \<Rightarrow> (case r of Throw e \<Rightarrow> (fx @ [ConsoleErrorObj e], Return ()) | _ \<Rightarrow> (fx, r)))
      else if platform h = ''linux''
      then (case linux (ldconfig h) of (fx, r) \<Rightarrow> (fx, discard r))
      else (case darwin (brew_list h) (brew_install h) of (fx, r) \<Rightarrow> (fx, discard r)))"
  using assms by (auto simp: main_def supported_def)

text \<open>
  Claim C2 at an unrecognised OS: the \<^verbatim>\<open>default\<close> case prints its message and makes no
  other effect, but it does not call \<^verbatim>\<open>process.exit(1)\<close> as the cases of an unsupported
  architecture do; the script runs to its end and the exit status is 0.
\<close>

theorem main_unrecognized_platform:
  "main (some_host ''freebsd'' ''x64'') =
     ([ConsoleError ''Platfrom freebsd is not supported.''], Return ()) \<and>
   filter side_effect (fst (main (some_host ''freebsd'' ''x64''))) = [] \<and>
   exit_status (snd (main (some_host ''freebsd'' ''x64''))) = Some 0"
  by (simp add: main_def some_host_def exit_status_def side_effect_def)

section \<open>The Library Verifier\<close>

lemma check_lib_foldl:
  "foldl (\<lambda>st l. check_lib stdout l st) (out, r) libs =
     (out @ map not_installed (filter (\<lambda>l. \<not> present stdout l) libs),
      if filter (\<lambda>l. \<not> present stdout l) libs = [] then r else 1)"
  by (induction libs arbitrary: out r) (simp_all add: check_lib_def present_def not_installed_def)

lemma linux_closed_form:
  "linux (Inr stdout) =
     (linux_start @ map not_installed (missing stdout) @
       (if missing stdout = [] then [] else [ConsoleLog remediation]),
      if missing stdout = [] then Return 0 else Exit 1)"
proof -
  have "linux (Inr stdout) =
     (let st = foldl (\<lambda>st l. check_lib stdout l st) (linux_start, 0) required_libs
      in if snd st = 1 then (fst st @ [ConsoleLog remediation], Exit 1)
                 else (fst st, Return (snd st)))"
    by (simp add: linux_def required_libs_def Let_def linux_start_def)
  then show ?thesis
    by (simp add: check_lib_foldl missing_def Let_def)
qed

lemma set_missing: "set (missing stdout) = {lib \<in> set required_libs. \<not> sublist lib stdout}"
  by (auto simp: missing_def present_def indexOf_neg_iff)

lemma not_installed_inj: "(not_installed a = not_installed b) = (a = b)"
  by (simp add: not_installed_def)

lemma not_installed_reported:
  "(not_installed lib \<in> set (fst (linux (Inr stdout)))) = (lib \<in> set (missing stdout))"
  by (auto simp: linux_closed_form linux_start_def not_installed_inj)
     (simp_all add: not_installed_def)

lemma main_linux:
  assumes "platform h = ''linux''" and "arch h = ''x64'' \<or> arch h = ''arm64''"
    and "ldconfig h = Inr stdout"
  shows "main h = (fst (linux (Inr stdout)), discard (snd (linux (Inr stdout))))"
  using assms by (auto simp: main_def split: prod.splits)

lemma filter_eq_distinct:
  "distinct xs \<Longrightarrow> x \<in> set xs \<Longrightarrow> filter (\<lambda>l. l = x) xs = [x]"
  by (induction xs) (auto simp: filter_empty_conv)

lemma missing_single:
  assumes "lib \<in> set required_libs" and "\<not> sublist lib stdout"
    and "\<forall>l \<in> set required_libs. l \<noteq> lib \<longrightarrow> sublist l stdout"
  shows "missing stdout = [lib]"
proof -
  have d: "distinct required_libs" by (simp add: required_libs_def)
  have "missing stdout = filter (\<lambda>l. l = lib) required_libs"
    unfolding missing_def using assms
    by (intro filter_cong) (auto simp: present_def indexOf_neg_iff)
  also have "\<dots> = [lib]"
    using d assms(1) by (rule filter_eq_distinct)
  finally show ?thesis .
qed

text \<open>
  Claim C6. On a supported Linux host whose \<^verbatim>\<open>ldconfig -p\<close> printed \<open>stdout\<close>: each of the
  eight required libraries is reported as not installed exactly when its name with
  version is not a substring of the listing; when all eight occur, the script prints
  nothing beyond its first line (no remediation text) and the process ends with status 0;
  when one is absent, the process exits with status 1.
\<close>

theorem linux_verifier_report:
  assumes "platform h = ''linux''" and "arch h = ''x64'' \<or> arch h = ''arm64''"
    and "ldconfig h = Inr stdout"
  shows "(\<forall>lib \<in> set required_libs.
            (not_installed lib \<in> set (fst (main h))) = (\<not> sublist lib stdout)) \<and>
         ((\<forall>lib \<in> set required_libs. sublist lib stdout) \<longrightarrow>
            main h = (linux_start, Return ()) \<and> exit_status (snd (main h)) = Some 0) \<and>
         ((\<exists>lib \<in> set required_libs. \<not> sublist lib stdout) \<longrightarrow>
            exit_status (snd (main h)) = Some 1)"
proof -
  note m = main_linux [OF assms]
  have 1: "\<forall>lib \<in> set required_libs.
            (not_installed lib \<in> set (fst (main h))) = (\<not> sublist lib stdout)"
    by (simp add: m not_installed_reported set_missing)
  have 2: "main h = (linux_start, Return ()) \<and> exit_status (snd (main h)) = Some 0"
    if "\<forall>lib \<in> set required_libs. sublist lib stdout"
  proof -
    from that have "set (missing stdout) = {}" by (auto simp: set_missing)
    then have "missing stdout = []" by simp
    then show ?thesis by (simp add: m linux_closed_form discard_def exit_status_def)
  qed
  have 3: "exit_status (snd (main h)) = Some 1"
    if "\<exists>lib \<in> set required_libs. \<not> sublist lib stdout"
  proof -
    from that have "set (missing stdout) \<noteq> {}" by (auto simp: set_missing)
    then have "missing stdout \<noteq> []" by auto
    then show ?thesis by (simp add: m linux_closed_form discard_def exit_status_def)
  qed
  from 1 2 3 show ?thesis by blast
qed

theorem linux_verifier_report_witness:
  "platform ((some_host ''linux'' ''x64'')\<lparr>ldconfig := Inr full_listing\<rparr>) = ''linux'' \<and>
   list_all (\<lambda>lib. sublist lib full_listing) required_libs \<and>
   main ((some_host ''linux'' ''x64'')\<lparr>ldconfig := Inr full_listing\<rparr>) = (linux_start, Return ()) \<and>
   exit_status (snd (main ((some_host ''linux'' ''x64'')\<lparr>ldconfig := Inr full_listing\<rparr>))) = Some 0"
proof -
  let ?h = "(some_host ''linux'' ''x64'')\<lparr>ldconfig := Inr full_listing\<rparr>"
  have p: "platform ?h = ''linux''" by (simp add: some_host_def)
  have a: "arch ?h = ''x64'' \<or> arch ?h = ''arm64''" by (simp add: some_host_def)
  have l: "ldconfig ?h = Inr full_listing" by simp
  have every: "list_all (\<lambda>lib. sublist lib full_listing) required_libs" by code_simp
  then have "\<forall>lib \<in> set required_libs. sublist lib full_listing"
    by (simp add: list_all_iff)
  with linux_verifier_report [OF p a l] every p show ?thesis by blast
qed

text \<open>
  Claim C9. On a supported Linux host where exactly one required library is absent from
  the listing, the process exits with status 1; the script prints one line saying that
  this library is not installed, then the remediation text once, and exactly one line of
  the whole console output names the package of the missing library (the
  \<^verbatim>\<open>apt-get install\<close> line).
\<close>

theorem linux_one_missing:
  assumes "platform h = ''linux''" and "arch h = ''x64'' \<or> arch h = ''arm64''"
    and "ldconfig h = Inr stdout"
    and "lib \<in> set required_libs" and "\<not> sublist lib stdout"
    and "\<forall>l \<in> set required_libs. l \<noteq> lib \<longrightarrow> sublist l stdout"
  shows "main h = (linux_start @ [not_installed lib, ConsoleLog remediation], Exit 1) \<and>
         exit_status (snd (main h)) = Some 1 \<and>
         length (filter (sublist (package_of lib)) (console_lines (fst (main h)))) = 1"
proof -
  note m = main_linux [OF assms(1-3)]
  have ms: "missing stdout = [lib]"
    using assms(4-6) by (rule missing_single)
  have 1: "main h = (linux_start @ [not_installed lib, ConsoleLog remediation], Exit 1)"
    by (simp add: m linux_closed_form ms discard_def)
  have 2: "length (filter (sublist (package_of lib))
             (console_lines (linux_start @ [not_installed lib, ConsoleLog remediation]))) = 1"
    using assms(4) unfolding required_libs_def
    by (auto; code_simp)
  from 1 2 show ?thesis by (simp add: exit_status_def)
qed

theorem linux_one_missing_witness:
  "''libpostproc.so.56'' \<in> set required_libs \<and>
   \<not> sublist ''libpostproc.so.56'' listing_without_postproc \<and>
   main ((some_host ''linux'' ''arm64'')\<lparr>ldconfig := Inr listing_without_postproc\<rparr>) =
     (linux_start @ [not_installed ''libpostproc.so.56'', ConsoleLog remediation], Exit 1) \<and>
   length (filter (sublist (package_of ''libpostproc.so.56''))
     (console_lines (fst (main ((some_host ''linux'' ''arm64'')\<lparr>ldconfig := Inr listing_without_postproc\<rparr>))))) = 1"
proof -
  let ?h = "(some_host ''linux'' ''arm64'')\<lparr>ldconfig := Inr listing_without_postproc\<rparr>"
  have p: "platform ?h = ''linux''" by (simp add: some_host_def)
  have a: "arch ?h = ''x64'' \<or> arch ?h = ''arm64''" by (simp add: some_host_def)
  have l: "ldconfig ?h = Inr listing_without_postproc" by simp
  have i: "''libpostproc.so.56'' \<in> set required_libs" by (simp add: required_libs_def)
  have n: "\<not> sublist ''libpostproc.so.56'' listing_without_postproc" by code_simp
  have o: "\<forall>l \<in> set required_libs. l \<noteq> ''libpostproc.so.56'' \<longrightarrow> sublist l listing_without_postproc"
    by code_simp
  from linux_one_missing [OF p a l i n o] i n show ?thesis by blast
qed

section \<open>The Package-Manager Bridge\<close>

text \<open>
  Claim C8. On a supported macOS host whose query \<^verbatim>\<open>brew list ffmpeg@5\<close> failed with
  error output \<open>err\<close>: when \<open>err\<close> carries the not-found signal, the install command is
  run; if it succeeds the script reports the installation and the process ends with
  status 0, if it fails the process exits with status 1. Without the signal the process
  exits with status 1 and the install command is never run.
\<close>

theorem darwin_bridge:
  assumes "platform h = ''darwin''" and "arch h = ''x64'' \<or> arch h = ''arm64''"
    and "brew_list h = Inl err"
  shows "(not_found_signal err \<longrightarrow>
            brew_install_cmd \<in> set (fst (main h)) \<and>
            (\<forall>out. brew_install h = Inr out \<longrightarrow>
               snd (main h) = Return () \<and> exit_status (snd (main h)) = Some 0 \<and>
               ConsoleLog ''FFmpeg installed via Homebrew.'' \<in> set (fst (main h))) \<and>
            (\<forall>e. brew_install h = Inl e \<longrightarrow>
               snd (main h) = Exit 1 \<and> exit_status (snd (main h)) = Some 1)) \<and>
         (\<not> not_found_signal err \<longrightarrow>
            snd (main h) = Exit 1 \<and> exit_status (snd (main h)) = Some 1 \<and>
            brew_install_cmd \<notin> set (fst (main h)))"
proof -
  have m: "main h = (fst (darwin (Inl err) (brew_install h)), discard (snd (darwin (Inl err) (brew_install h))))"
    using assms by (auto simp: main_def split: prod.splits)
  show ?thesis
    unfolding m
    by (auto simp: darwin_def indexOf_minus_one_iff brew_install_cmd_def Let_def
          not_found_signal_def discard_def exit_status_def split: sum.splits)
qed

theorem darwin_bridge_witness:
  "not_found_signal ''Error: No such keg: /usr/local/Cellar/ffmpeg@5'' \<and>
   brew_install_cmd \<in> set (fst (main ((some_host ''darwin'' ''arm64'')
      \<lparr>brew_list := Inl ''Error: No such keg: /usr/local/Cellar/ffmpeg@5'',
       brew_install := Inr ''installed''\<rparr>))) \<and>
   exit_status (snd (main ((some_host ''darwin'' ''arm64'')
      \<lparr>brew_list := Inl ''Error: No such keg: /usr/local/Cellar/ffmpeg@5'',
       brew_install := Inr ''installed''\<rparr>))) = Some 0"
proof -
  let ?h = "(some_host ''darwin'' ''arm64'')
      \<lparr>brew_list := Inl ''Error: No such keg: /usr/local/Cellar/ffmpeg@5'',
       brew_install := Inr ''installed''\<rparr>"
  have p: "platform ?h = ''darwin''" by (simp add: some_host_def)
  have a: "arch ?h = ''x64'' \<or> arch ?h = ''arm64''" by (simp add: some_host_def)
  have l: "brew_list ?h = Inl ''Error: No such keg: /usr/local/Cellar/ffmpeg@5''" by simp
  have i: "brew_install ?h = Inr ''installed''" by simp
  have s: "not_found_signal ''Error: No such keg: /usr/local/Cellar/ffmpeg@5''"
    unfolding not_found_signal_def by code_simp
  from darwin_bridge [OF p a l] s i show ?thesis by blast
qed

text \<open>
  Claim C10. After a failed query with error output \<open>err\<close>, \<^verbatim>\<open>darwin\<close> exits at once
  with status 1, without running the install command, exactly when \<open>err\<close> contains
  neither \<^verbatim>\<open>Error: No such keg\<close> nor \<^verbatim>\<open>ffmpeg@5\<close>; and it runs the install command
  exactly when \<open>err\<close> contains one of the two.
\<close>

theorem darwin_fatal_iff:
  "(snd (darwin (Inl err) inst) = Exit 1 \<and> brew_install_cmd \<notin> set (fst (darwin (Inl err) inst)))
     = (\<not> sublist ''Error: No such keg'' err \<and> \<not> sublist ''ffmpeg@5'' err) \<and>
   (brew_install_cmd \<in> set (fst (darwin (Inl err) inst)))
     = (sublist ''Error: No such keg'' err \<or> sublist ''ffmpeg@5'' err)"
  by (auto simp: darwin_def indexOf_minus_one_iff brew_install_cmd_def Let_def split: sum.splits)

section \<open>The Windows branch\<close>

lemma get_undefined_effects: "\<forall>x \<in> set (fst (snd (get_undefined ws r))). \<not> extraction x"
  by (simp add: get_undefined_def extraction_def split: option.splits)

lemma extract_and_rename_unzips:
  "npm_error env = None \<Longrightarrow>
   UnzipFile (''ffmpeg/'' @ ffmpegFilename @ ''.zip'') ''ffmpeg'' \<in> set (fst (extract_and_rename env))"
  by (auto simp: extract_and_rename_def Let_def split: option.splits unzip_outcome.splits)

lemma win32_reaches_install:
  assumes "mkdir_error env = None \<or> mkdir_error env = Some (NodeError ''EEXIST'')"
    and "access_error env = Some a"
  shows "win32 env = (win32_start @ fst (win32_install env), snd (win32_install env))"
  using assms by (auto simp: win32_def win32_start_def code_def Let_def split: prod.splits)

lemma win32_download_stops:
  assumes "mkdir_error env = None \<or> mkdir_error env = Some (NodeError ''EEXIST'')"
    and "access_error env = Some a"
    and "download env = (ws, fx, r)" and "r = Throw e \<or> r = Pending"
    and "\<forall>x \<in> set fx. \<not> extraction x"
  shows "win32 env =
           (win32_start @ [CreateWriteStream (''ffmpeg/'' @ ffmpegFilename @ ''.zip'')] @ fx, r) \<and>
         \<not> (\<exists>x \<in> set (fst (win32 env)). extraction x)"
proof -
  from assms(3,4) have eq: "win32 env =
      (win32_start @ [CreateWriteStream (''ffmpeg/'' @ ffmpegFilename @ ''.zip'')] @ fx, r)"
    by (auto simp: win32_reaches_install [OF assms(1,2)] win32_install_def)
  from assms(5) have "\<not> (\<exists>x \<in> set (fst (win32 env)). extraction x)"
    unfolding eq by (auto simp: win32_start_def extraction_def)
  with eq show ?thesis by simp
qed

text \<open>
  Claim C7, as amended. On Windows, with the target directory absent, let the first
  transfer fail with the error \<open>e\<close>. If \<open>e\<close> is not a RedirectError, the error is printed
  and goes no further: the chain continues with the installation of yauzl and the Archive
  Extractor and ends as they end (the rename is run when the extractor resolves). If \<open>e\<close>
  is a RedirectError and the second request fails with \<open>e'\<close>, be it the request to the
  location or, without a location, the request without a URL, then \<open>e'\<close> propagates:
  \<^verbatim>\<open>win32\<close> rejects with it, and neither the Archive Extractor nor the rename is run. If
  the request without a URL does not fail, the promise of \<^verbatim>\<open>win32\<close> is never settled, and
  again neither is run.
\<close>

theorem win32_transfer_failure:
  assumes "mkdir_error env = None \<or> mkdir_error env = Some (NodeError ''EEXIST'')"
    and "access_error env = Some a"
    and "get [] (net env) url (ffmpegFilename @ ''.zip'') = (ws, fx, Throw e)"
  shows "((\<forall>m. e \<noteq> RedirectError m) \<longrightarrow>
            win32 env =
              (win32_start @ [CreateWriteStream (''ffmpeg/'' @ ffmpegFilename @ ''.zip'')] @ fx @
                 [ConsoleErrorObj e] @ fst (extract_and_rename env),
               snd (extract_and_rename env)) \<and>
            (npm_error env = None \<longrightarrow>
               UnzipFile (''ffmpeg/'' @ ffmpegFilename @ ''.zip'') ''ffmpeg'' \<in> set (fst (win32 env)))) \<and>
         (\<forall>u2 ws' fx' e'.
            e = RedirectError (Some u2) \<and>
            get ws (net env) u2 (ffmpegFilename @ ''.zip'') = (ws', fx', Throw e') \<longrightarrow>
            win32 env =
              (win32_start @ [CreateWriteStream (''ffmpeg/'' @ ffmpegFilename @ ''.zip'')] @ fx @ fx',
               Throw e') \<and>
            \<not> (\<exists>x \<in> set (fst (win32 env)). extraction x)) \<and>
         (\<forall>e'.
            e = RedirectError None \<and> default_request env = Some e' \<longrightarrow>
            win32 env =
              (win32_start @ [CreateWriteStream (''ffmpeg/'' @ ffmpegFilename @ ''.zip'')] @ fx @
                 [HttpsGetDefault],
               Throw e') \<and>
            \<not> (\<exists>x \<in> set (fst (win32 env)). extraction x)) \<and>
         (e = RedirectError None \<and> default_request env = None \<longrightarrow>
            win32 env =
              (win32_start @ [CreateWriteStream (''ffmpeg/'' @ ffmpegFilename @ ''.zip'')] @ fx @
                 [HttpsGetDefault],
               Pending) \<and>
            \<not> (\<exists>x \<in> set (fst (win32 env)). extraction x))"
proof -
  note w = win32_reaches_install [OF assms(1,2)]
  note stops = win32_download_stops [OF assms(1,2)]
  have fx: "\<forall>x \<in> set fx. \<not> extraction x"
    using get_effects [of "[]" "net env" url "ffmpegFilename @ ''.zip''"] assms(3) by simp
  have a: "win32 env =
              (win32_start @ [CreateWriteStream (''ffmpeg/'' @ ffmpegFilename @ ''.zip'')] @ fx @
                 [ConsoleErrorObj e] @ fst (extract_and_rename env),
               snd (extract_and_rename env))"
    if "\<forall>m. e \<noteq> RedirectError m"
  proof -
    from that assms(3) have "download env = (ws, fx @ [ConsoleErrorObj e], Return ())"
      by (cases e) (simp_all add: download_def)
    then show ?thesis
      by (simp add: w win32_install_def split: prod.splits)
  qed
  have a': "UnzipFile (''ffmpeg/'' @ ffmpegFilename @ ''.zip'') ''ffmpeg'' \<in> set (fst (win32 env))"
    if "\<forall>m. e \<noteq> RedirectError m" and "npm_error env = None"
    using a [OF that(1)] extract_and_rename_unzips [OF that(2)] by simp
  have b: "win32 env =
              (win32_start @ [CreateWriteStream (''ffmpeg/'' @ ffmpegFilename @ ''.zip'')] @ fx @ fx',
               Throw e') \<and>
            \<not> (\<exists>x \<in> set (fst (win32 env)). extraction x)"
    if r: "e = RedirectError (Some u2)"
      and g2: "get ws (net env) u2 (ffmpegFilename @ ''.zip'') = (ws', fx', Throw e')"
    for u2 ws' fx' e'
  proof -
    from r g2 assms(3) have d: "download env = (ws', fx @ fx', Throw e')"
      by (simp add: download_def)
    have "\<forall>x \<in> set fx'. \<not> extraction x"
      using get_effects [of ws "net env" u2 "ffmpegFilename @ ''.zip''"] g2 by simp
    with fx have "\<forall>x \<in> set (fx @ fx'). \<not> extraction x" by auto
    with stops [OF d] show ?thesis by simp
  qed
  have c: "win32 env =
              (win32_start @ [CreateWriteStream (''ffmpeg/'' @ ffmpegFilename @ ''.zip'')] @ fx @
                 [HttpsGetDefault],
               Throw e') \<and>
            \<not> (\<exists>x \<in> set (fst (win32 env)). extraction x)"
    if r: "e = RedirectError None" and q: "default_request env = Some e'" for e'
  proof -
    from r q assms(3) have d: "download env = (ws, fx @ [HttpsGetDefault], Throw e')"
      by (simp add: download_def get_undefined_def)
    from fx have "\<forall>x \<in> set (fx @ [HttpsGetDefault]). \<not> extraction x"
      by (auto simp: extraction_def)
    with stops [OF d] show ?thesis by simp
  qed
  have c': "win32 env =
              (win32_start @ [CreateWriteStream (''ffmpeg/'' @ ffmpegFilename @ ''.zip'')] @ fx @
                 [HttpsGetDefault],
               Pending) \<and>
            \<not> (\<exists>x \<in> set (fst (win32 env)). extraction x)"
    if r: "e = RedirectError None" and q: "default_request env = None"
  proof -
    from r q assms(3) have d: "download env = (ws, fx @ [HttpsGetDefault], Pending)"
      by (simp add: download_def get_undefined_def)
    from fx have "\<forall>x \<in> set (fx @ [HttpsGetDefault]). \<not> extraction x"
      by (auto simp: extraction_def)
    with stops [OF d] show ?thesis by simp
  qed
  from a a' b c c' show ?thesis by blast
qed

theorem win32_transfer_failure_witness:
  "win32 reset_env =
     (win32_start @ [CreateWriteStream (''ffmpeg/'' @ ffmpegFilename @ ''.zip'')] @ [HttpsGet url] @
        [ConsoleErrorObj (NodeError ''ECONNRESET'')] @ fst (extract_and_rename reset_env),
      snd (extract_and_rename reset_env)) \<and>
   UnzipFile (''ffmpeg/'' @ ffmpegFilename @ ''.zip'') ''ffmpeg'' \<in> set (fst (win32 reset_env)) \<and>
   win32 late_reset_env =
     (win32_start @ [CreateWriteStream (''ffmpeg/'' @ ffmpegFilename @ ''.zip'')] @
        [HttpsGet url, Progress 2 (Some 4) (ffmpegFilename @ ''.zip''),
         Progress 4 (Some 4) (ffmpegFilename @ ''.zip'')] @
        [ConsoleErrorObj (NodeError ''ECONNRESET'')] @ fst (extract_and_rename late_reset_env),
      snd (extract_and_rename late_reset_env)) \<and>
   extract_and_rename late_reset_env =
     ([Exec ''npm install yauzl --no-save'',
       UnzipFile (''ffmpeg/'' @ ffmpegFilename @ ''.zip'') ''ffmpeg'',
       RenameSync ''ffmpeg/ffmpeg-5.1.2-full_build-shared'' (''ffmpeg/'' @ ffmpegFilename)],
      Return ()) \<and>
   win32 redirect_then_reset_env =
     (win32_start @ [CreateWriteStream (''ffmpeg/'' @ ffmpegFilename @ ''.zip'')] @ [HttpsGet url] @
        [HttpsGet ''https://objects.example/ffmpeg.zip''],
      Throw (NodeError ''ECONNRESET'')) \<and>
   \<not> (\<exists>x \<in> set (fst (win32 redirect_then_reset_env)). extraction x) \<and>
   win32 bare_redirect_env =
     (win32_start @ [CreateWriteStream (''ffmpeg/'' @ ffmpegFilename @ ''.zip'')] @ [HttpsGet url] @
        [HttpsGetDefault],
      Throw (NodeError ''ECONNREFUSED'')) \<and>
   \<not> (\<exists>x \<in> set (fst (win32 bare_redirect_env)). extraction x)"
proof -
  have m: "mkdir_error reset_env = None \<or> mkdir_error reset_env = Some (NodeError ''EEXIST'')"
    and ac: "access_error reset_env = Some (NodeError ''ENOENT'')"
    and n: "npm_error reset_env = None"
    by (simp_all add: reset_env_def)
  have g: "get [] (net reset_env) url (ffmpegFilename @ ''.zip'') =
     ([], [HttpsGet url], Throw (NodeError ''ECONNRESET''))"
    by (simp add: get_def reset_env_def always_def)
  have first: "win32 reset_env =
     (win32_start @ [CreateWriteStream (''ffmpeg/'' @ ffmpegFilename @ ''.zip'')] @ [HttpsGet url] @
        [ConsoleErrorObj (NodeError ''ECONNRESET'')] @ fst (extract_and_rename reset_env),
      snd (extract_and_rename reset_env)) \<and>
   UnzipFile (''ffmpeg/'' @ ffmpegFilename @ ''.zip'') ''ffmpeg'' \<in> set (fst (win32 reset_env))"
    using win32_transfer_failure [OF m ac g] n by blast
  have ml: "mkdir_error late_reset_env = None \<or>
            mkdir_error late_reset_env = Some (NodeError ''EEXIST'')"
    and acl: "access_error late_reset_env = Some (NodeError ''ENOENT'')"
    by (simp_all add: late_reset_env_def reset_env_def)
  have gl: "get [] (net late_reset_env) url (ffmpegFilename @ ''.zip'') =
     (''PKzz'', [HttpsGet url, Progress 2 (Some 4) (ffmpegFilename @ ''.zip''),
         Progress 4 (Some 4) (ffmpegFilename @ ''.zip'')], Throw (NodeError ''ECONNRESET''))"
    by (simp add: get_def late_reset_env_def always_def ok_200_reset_def)
  have late: "win32 late_reset_env =
     (win32_start @ [CreateWriteStream (''ffmpeg/'' @ ffmpegFilename @ ''.zip'')] @
        [HttpsGet url, Progress 2 (Some 4) (ffmpegFilename @ ''.zip''),
         Progress 4 (Some 4) (ffmpegFilename @ ''.zip'')] @
        [ConsoleErrorObj (NodeError ''ECONNRESET'')] @ fst (extract_and_rename late_reset_env),
      snd (extract_and_rename late_reset_env))"
    using win32_transfer_failure [OF ml acl gl] by blast
  have rename: "extract_and_rename late_reset_env =
     ([Exec ''npm install yauzl --no-save'',
       UnzipFile (''ffmpeg/'' @ ffmpegFilename @ ''.zip'') ''ffmpeg'',
       RenameSync ''ffmpeg/ffmpeg-5.1.2-full_build-shared'' (''ffmpeg/'' @ ffmpegFilename)],
      Return ())"
    by (simp add: extract_and_rename_def late_reset_env_def reset_env_def)
  have m': "mkdir_error redirect_then_reset_env = None \<or>
            mkdir_error redirect_then_reset_env = Some (NodeError ''EEXIST'')"
    and ac': "access_error redirect_then_reset_env = Some (NodeError ''ENOENT'')"
    by (simp_all add: redirect_then_reset_env_def reset_env_def)
  have g1: "get [] (net redirect_then_reset_env) url (ffmpegFilename @ ''.zip'') =
     ([], [HttpsGet url], Throw (RedirectError (Some ''https://objects.example/ffmpeg.zip'')))"
    by (simp add: get_def redirect_then_reset_env_def redirecting_def found_302_def)
  have g2: "get [] (net redirect_then_reset_env) ''https://objects.example/ffmpeg.zip''
              (ffmpegFilename @ ''.zip'') =
     ([], [HttpsGet ''https://objects.example/ffmpeg.zip''], Throw (NodeError ''ECONNRESET''))"
    by (simp add: get_def redirect_then_reset_env_def redirecting_def url_def)
  have second: "win32 redirect_then_reset_env =
     (win32_start @ [CreateWriteStream (''ffmpeg/'' @ ffmpegFilename @ ''.zip'')] @ [HttpsGet url] @
        [HttpsGet ''https://objects.example/ffmpeg.zip''],
      Throw (NodeError ''ECONNRESET'')) \<and>
   \<not> (\<exists>x \<in> set (fst (win32 redirect_then_reset_env)). extraction x)"
    using win32_transfer_failure [OF m' ac' g1] g2 by blast
  have mb: "mkdir_error bare_redirect_env = None \<or>
            mkdir_error bare_redirect_env = Some (NodeError ''EEXIST'')"
    and acb: "access_error bare_redirect_env = Some (NodeError ''ENOENT'')"
    and db: "default_request bare_redirect_env = Some (NodeError ''ECONNREFUSED'')"
    by (simp_all add: bare_redirect_env_def reset_env_def)
  have gb: "get [] (net bare_redirect_env) url (ffmpegFilename @ ''.zip'') =
     ([], [HttpsGet url], Throw (RedirectError None))"
    by (simp add: get_def bare_redirect_env_def redirecting_def moved_301_bare_def)
  have third: "win32 bare_redirect_env =
     (win32_start @ [CreateWriteStream (''ffmpeg/'' @ ffmpegFilename @ ''.zip'')] @ [HttpsGet url] @
        [HttpsGetDefault],
      Throw (NodeError ''ECONNREFUSED'')) \<and>
   \<not> (\<exists>x \<in> set (fst (win32 bare_redirect_env)). extraction x)"
    using win32_transfer_failure [OF mb acb gb] db by blast
  from first late rename second third show ?thesis by blast
qed

text \<open>
  Claim C7 as stated fails: when the connection to the download host is reset, the first
  transfer fails with a non-redirect error, and \<^verbatim>\<open>win32\<close> still installs yauzl and runs
  the Archive Extractor on the empty archive. The error of the transfer is only printed;
  what ends the chain is the exception thrown in the callback of \<^verbatim>\<open>yauzl.open\<close>, with
  which the process dies.
\<close>

theorem win32_reset_runs_extractor:
  "get [] (net reset_env) url (ffmpegFilename @ ''.zip'') =
     ([], [HttpsGet url], Throw (NodeError ''ECONNRESET'')) \<and>
   win32 reset_env =
     (win32_start @
        [CreateWriteStream (''ffmpeg/'' @ ffmpegFilename @ ''.zip''), HttpsGet url,
         ConsoleErrorObj (NodeError ''ECONNRESET''), Exec ''npm install yauzl --no-save'',
         UnzipFile (''ffmpeg/'' @ ffmpegFilename @ ''.zip'') ''ffmpeg'',
         UncaughtException (TypeError ''Cannot read properties of undefined (reading readEntry)'')],
      Exit 1) \<and>
   exit_status (snd (main (some_host ''win32'' ''x64''))) = Some 1"
  by (simp add: get_def reset_env_def always_def win32_def win32_install_def download_def
        extract_and_rename_def win32_start_def code_def main_def some_host_def exit_status_def)

section \<open>The Archive Extractor\<close>

subsection \<open>The ledger is an invariant\<close>

lemma exclusive_1: "exclusive [a, b, c, d, e] \<Longrightarrow> a \<Longrightarrow> \<not> b \<and> \<not> c \<and> \<not> d \<and> \<not> e"
  by (auto simp: exclusive_def split: if_splits)

lemma exclusive_2: "exclusive [a, b, c, d, e] \<Longrightarrow> b \<Longrightarrow> \<not> a \<and> \<not> c \<and> \<not> d \<and> \<not> e"
  by (auto simp: exclusive_def split: if_splits)

lemma exclusive_3: "exclusive [a, b, c, d, e] \<Longrightarrow> c \<Longrightarrow> \<not> a \<and> \<not> b \<and> \<not> d \<and> \<not> e"
  by (auto simp: exclusive_def split: if_splits)

lemma exclusive_4: "exclusive [a, b, c, d, e] \<Longrightarrow> d \<Longrightarrow> \<not> a \<and> \<not> b \<and> \<not> c \<and> \<not> e"
  by (auto simp: exclusive_def split: if_splits)

lemma exclusive_5: "exclusive [a, b, c, d, e] \<Longrightarrow> e \<Longrightarrow> \<not> a \<and> \<not> b \<and> \<not> c \<and> \<not> d"
  by (auto simp: exclusive_def split: if_splits)

lemma exclusive_drop: "exclusive [a, b, c, d, e] \<Longrightarrow> exclusive [False, b, c, d, e]"
  "exclusive [a, b, c, d, e] \<Longrightarrow> exclusive [a, b, False, d, e]"
  by (auto simp: exclusive_def split: if_splits)

lemma ledger_flags:
  assumes "ledger s"
  shows "open_pending s \<Longrightarrow> \<not> requested s \<and> stream_pending s = None \<and> \<not> reading s \<and> \<not> ended s"
    and "requested s \<Longrightarrow> \<not> open_pending s \<and> stream_pending s = None \<and> \<not> reading s \<and> \<not> ended s"
    and "stream_pending s = Some n \<Longrightarrow> \<not> open_pending s \<and> \<not> requested s \<and> \<not> reading s \<and> \<not> ended s"
    and "reading s \<Longrightarrow> \<not> open_pending s \<and> \<not> requested s \<and> stream_pending s = None \<and> \<not> ended s"
    and "ended s \<Longrightarrow> \<not> open_pending s \<and> \<not> requested s \<and> stream_pending s = None \<and> \<not> reading s"
proof -
  from assms have x: "exclusive [open_pending s, requested s, stream_pending s \<noteq> None, reading s, ended s]"
    by (simp add: ledger_def activities_def)
  show "open_pending s \<Longrightarrow> \<not> requested s \<and> stream_pending s = None \<and> \<not> reading s \<and> \<not> ended s"
    using exclusive_1 [OF x] by simp
  show "requested s \<Longrightarrow> \<not> open_pending s \<and> stream_pending s = None \<and> \<not> reading s \<and> \<not> ended s"
    using exclusive_2 [OF x] by simp
  show "stream_pending s = Some n \<Longrightarrow> \<not> open_pending s \<and> \<not> requested s \<and> \<not> reading s \<and> \<not> ended s"
    using exclusive_3 [OF x] by simp
  show "reading s \<Longrightarrow> \<not> open_pending s \<and> \<not> requested s \<and> stream_pending s = None \<and> \<not> ended s"
    using exclusive_4 [OF x] by simp
  show "ended s \<Longrightarrow> \<not> open_pending s \<and> \<not> requested s \<and> stream_pending s = None \<and> \<not> reading s"
    using exclusive_5 [OF x] by simp
qed

lemma ledger_unresolved: "ledger s \<Longrightarrow> \<not> ended s \<Longrightarrow> resolved s = []"
  by (auto simp: ledger_def)

lemma ledger_init: "ledger (unzip_init cfg)"
  by (simp add: ledger_def unzip_init_def incHandles_def activities_def exclusive_def)

lemma length_remove1_int:
  assumes "i \<in> set ws"
  shows "int (length (remove1 i ws)) = int (length ws) - 1"
proof -
  from assms have "0 < length ws" by (rule length_pos_if_in_set)
  then have "int (length ws - 1) = int (length ws) - 1" by arith
  with assms show ?thesis by (simp add: length_remove1)
qed

lemma remove1_empty_iff: "i \<in> set ws \<Longrightarrow> (remove1 i ws = []) = (length ws = 1)"
  by (cases ws) (auto simp: length_Suc_conv)

lemma ledger_opened:
  assumes l: "ledger s" and g: "open_pending s"
  shows "ledger (on_open (s\<lparr>open_pending := False\<rparr>))"
proof -
  from ledger_flags(1) [OF l g] have f: "\<not> requested s" "stream_pending s = None" "\<not> reading s" "\<not> ended s"
    by simp_all
  from ledger_unresolved [OF l f(4)] l f show ?thesis
    by (simp add: ledger_def on_open_def readEntry_def activities_def exclusive_def)
qed

lemma ledger_entry:
  assumes l: "ledger s" and g: "requested s" and e: "entries s = n # rest"
  shows "ledger (on_entry n (s\<lparr>requested := False, entries := rest\<rparr>))"
proof -
  from ledger_flags(2) [OF l g] have f: "\<not> open_pending s" "stream_pending s = None" "\<not> reading s" "\<not> ended s"
    by simp_all
  from ledger_unresolved [OF l f(4)] l f show ?thesis
    by (simp add: ledger_def on_entry_def readEntry_def activities_def exclusive_def)
qed

lemma ledger_stream_opened:
  assumes l: "ledger s" and g: "stream_pending s = Some n"
  shows "ledger (on_read_stream cfg n (s\<lparr>stream_pending := None\<rparr>))"
proof -
  from ledger_flags(3) [OF l g] have f: "\<not> open_pending s" "\<not> requested s" "\<not> reading s" "\<not> ended s"
    by simp_all
  from ledger_unresolved [OF l f(4)] l f show ?thesis
    by (simp add: ledger_def on_read_stream_def incHandles_def Let_def activities_def exclusive_def)
qed

lemma ledger_read_end:
  assumes l: "ledger s" and g: "reading s"
  shows "ledger (on_read_end (s\<lparr>reading := False\<rparr>))"
proof -
  from ledger_flags(4) [OF l g] have f: "\<not> open_pending s" "\<not> requested s" "stream_pending s = None" "\<not> ended s"
    by simp_all
  from ledger_unresolved [OF l f(4)] l f show ?thesis
    by (simp add: ledger_def on_read_end_def readEntry_def activities_def exclusive_def)
qed

lemma ledger_zip_end:
  assumes l: "ledger s" and g: "requested s" and e: "entries s = []"
  shows "ledger (on_end (s\<lparr>requested := False, ended := True\<rparr>))"
proof -
  from ledger_flags(2) [OF l g] have f: "\<not> open_pending s" "stream_pending s = None" "\<not> reading s" "\<not> ended s"
    by simp_all
  from ledger_unresolved [OF l f(4)] l f e show ?thesis
    by (simp add: ledger_def on_end_def decHandles_def Let_def activities_def exclusive_def)
qed

lemma ledger_write_close:
  assumes l: "ledger s" and g: "i \<in> set (writing s)"
  shows "ledger (on_close (s\<lparr>writing := remove1 i (writing s)\<rparr>))"
proof -
  from g have w: "writing s \<noteq> []" by auto
  with l have r: "resolved s = []" by (auto simp: ledger_def)
  from g have pos: "0 < length (writing s)" by (cases "writing s") auto
  show ?thesis
  proof (cases "ended s")
    case True
    with l r g pos show ?thesis
      by (simp add: ledger_def on_close_def decHandles_def Let_def activities_def
            length_remove1_int remove1_empty_iff)
  next
    case False
    with l r g pos show ?thesis
      by (simp add: ledger_def on_close_def decHandles_def Let_def activities_def
            length_remove1_int)
  qed
qed

lemma ledger_callback_error:
  assumes l: "ledger s"
  shows "ledger (on_callback_error e (s\<lparr>open_pending := False\<rparr>))"
    and "ledger (on_callback_error e (s\<lparr>stream_pending := None\<rparr>))"
  using l exclusive_drop [of "open_pending s" "requested s" "stream_pending s \<noteq> None" "reading s" "ended s"]
  by (simp_all add: ledger_def on_callback_error_def activities_def)

lemma ledger_fault: "ledger s \<Longrightarrow> ledger (s\<lparr>crashed := True\<rparr>)"
  by (simp add: ledger_def activities_def)

lemma step_ledger:
  assumes "ledger s" and "step cfg ev s = Some s'"
  shows "ledger s'"
proof (cases ev)
  case Opened
  with assms(2) have "open_pending s" and "s' = on_open (s\<lparr>open_pending := False\<rparr>)"
    by (simp_all add: step_def split: if_splits)
  with ledger_opened [OF assms(1)] show ?thesis by simp
next
  case (OpenFailed e)
  with assms(2) have "s' = on_callback_error e (s\<lparr>open_pending := False\<rparr>)"
    by (simp add: step_def split: if_splits)
  with ledger_callback_error(1) [OF assms(1)] show ?thesis by simp
next
  case Entry
  with assms(2) obtain n rest where "entries s = n # rest" and "requested s"
    and "s' = on_entry n (s\<lparr>requested := False, entries := rest\<rparr>)"
    by (auto simp: step_def split: if_splits list.splits)
  with ledger_entry [OF assms(1)] show ?thesis by simp
next
  case StreamOpened
  with assms(2) obtain n where "stream_pending s = Some n"
    and "s' = on_read_stream cfg n (s\<lparr>stream_pending := None\<rparr>)"
    by (auto simp: step_def split: if_splits option.splits)
  with ledger_stream_opened [OF assms(1)] show ?thesis by simp
next
  case (StreamFailed e)
  with assms(2) have "s' = on_callback_error e (s\<lparr>stream_pending := None\<rparr>)"
    by (auto simp: step_def split: if_splits option.splits)
  with ledger_callback_error(2) [OF assms(1)] show ?thesis by simp
next
  case ReadEnd
  with assms(2) have "reading s" and "s' = on_read_end (s\<lparr>reading := False\<rparr>)"
    by (simp_all add: step_def split: if_splits)
  with ledger_read_end [OF assms(1)] show ?thesis by simp
next
  case (WriteClose i)
  with assms(2) have "i \<in> set (writing s)"
    and "s' = on_close (s\<lparr>writing := remove1 i (writing s)\<rparr>)"
    by (simp_all add: step_def split: if_splits)
  with ledger_write_close [OF assms(1)] show ?thesis by simp
next
  case ZipEnd
  with assms(2) have "requested s" and "entries s = []"
    and "s' = on_end (s\<lparr>requested := False, ended := True\<rparr>)"
    by (simp_all add: step_def split: if_splits)
  with ledger_zip_end [OF assms(1)] show ?thesis by simp
next
  case Fault
  with assms(2) have "s' = s\<lparr>crashed := True\<rparr>"
    by (simp add: step_def split: if_splits)
  with ledger_fault [OF assms(1)] show ?thesis by simp
qed

lemma run_ledger: "ledger s \<Longrightarrow> run cfg evs s = Some s' \<Longrightarrow> ledger s'"
proof (induction evs arbitrary: s)
  case Nil
  then show ?case by simp
next
  case (Cons ev evs)
  from Cons.prems(2) obtain s1 where s1: "step cfg ev s = Some s1" and r: "run cfg evs s1 = Some s'"
    by (auto split: option.splits)
  from step_ledger [OF Cons.prems(1) s1] r show ?case by (rule Cons.IH)
qed

subsection \<open>The progress of the enumeration is an invariant\<close>


















subsection \<open>The events as the collaborators deliver them\<close>











subsection \<open>The sequential schedule completes\<close>









subsection \<open>The claims\<close>

lemma example_run:
  "\<exists>s. run example_cfg interleaved (unzip_init example_cfg) = Some s \<and>
       resolved s = [''root''] \<and>
       piped s = [(''root/a.txt'', ''ffmpeg/root/a.txt''), (''root/sub/b.txt'', ''ffmpeg/root/sub/b.txt'')] \<and>
       handles s = 0 \<and> ended s \<and> writing s = []"
  by (simp add: example_cfg_def interleaved_def unzip_init_def step_def on_open_def on_entry_def
        on_read_stream_def incHandles_def Let_def on_read_end_def readEntry_def on_close_def
        on_end_def decHandles_def is_directory_def first_segment_def join_slash_def)

text \<open>
  Claim C3. In every state that the callbacks of \<^verbatim>\<open>unzipFile\<close> can reach, if the promise
  has been resolved then the enumeration has ended, with no entry left and no read stream
  pending or flowing, and every write stream has closed.
\<close>

theorem completion_after_all_closed:
  assumes "run cfg evs (unzip_init cfg) = Some s" and "resolved s \<noteq> []"
  shows "ended s \<and> entries s = [] \<and> writing s = [] \<and>
         stream_pending s = None \<and> \<not> reading s \<and> \<not> requested s"
proof -
  have l: "ledger s" using ledger_init assms(1) by (rule run_ledger)
  with assms(2) have e: "ended s" and w: "writing s = []" and n: "entries s = []"
    by (auto simp: ledger_def)
  from ledger_flags(5) [OF l e] e w n show ?thesis by simp
qed

theorem completion_after_all_closed_witness:
  "\<exists>s. run example_cfg interleaved (unzip_init example_cfg) = Some s \<and>
       resolved s = [''root''] \<and> ended s \<and> entries s = [] \<and> writing s = [] \<and>
       stream_pending s = None \<and> \<not> reading s \<and> \<not> requested s"
proof -
  from example_run obtain s where r: "run example_cfg interleaved (unzip_init example_cfg) = Some s"
    and v: "resolved s = [''root'']" by blast
  from v have ne: "resolved s \<noteq> []" by simp
  from completion_after_all_closed [OF r ne] r v show ?thesis by blast
qed

text \<open>
  Claim C4. In every state that the callbacks of \<^verbatim>\<open>unzipFile\<close> can reach, the counter
  \<^verbatim>\<open>handles\<close> is not negative and \<^verbatim>\<open>resolve\<close> has been called at most once.
\<close>

theorem handles_never_negative:
  assumes "run cfg evs (unzip_init cfg) = Some s"
  shows "0 \<le> handles s \<and> length (resolved s) \<le> 1"
proof -
  have "ledger s" using ledger_init assms by (rule run_ledger)
  then show ?thesis by (auto simp: ledger_def)
qed

theorem handles_never_negative_witness:
  "\<exists>s. run example_cfg interleaved (unzip_init example_cfg) = Some s \<and>
       0 \<le> handles s \<and> length (resolved s) \<le> 1"
proof -
  from example_run obtain s where r: "run example_cfg interleaved (unzip_init example_cfg) = Some s"
    by blast
  from handles_never_negative [OF r] r show ?thesis by blast
qed



end
